theory Spec2Isabelle
  imports Main "HOL-Library.Word"
begin

section \<open>The RRef context of torch/csrc/distributed/rpc\<close>

text \<open>
  A shallow embedding of \<^verbatim>\<open>RRefContext\<close> (rref_context.h and its implementation file).
  Every member function becomes a function from the context to a result and the context
  it leaves behind. A failed \<^verbatim>\<open>TORCH_CHECK\<close> or \<^verbatim>\<open>TORCH_INTERNAL_ASSERT\<close> throws; the
  model returns the error next to the context as it is at the throw, so that whatever
  the function wrote before the check is still there. The member names of the source
  end in an underscore, which a HOL constant cannot; the fields below drop it.
\<close>

subsection \<open>Identifiers and reference objects\<close>

text \<open>
  Modelled from the spec: types.h is not among the sources. The spec gives an identifier
  as \<^verbatim>\<open>(worker_id: u16, local_id: u64)\<close>, with \<^verbatim>\<open>RRefId\<close> and \<^verbatim>\<open>ForkId\<close> structurally
  identical; the source passes an \<^verbatim>\<open>RRefId\<close> where a \<^verbatim>\<open>ForkId\<close> is expected, so they are
  one type here.
\<close>

type_synonym worker_id_t = "16 word"
type_synonym local_id_t = "64 word"

record GloballyUniqueId =
  createdOn :: worker_id_t
  localId :: local_id_t

type_synonym RRefId = GloballyUniqueId
type_synonym ForkId = GloballyUniqueId

text \<open>The two instantiations of the templates: \<^verbatim>\<open>IValue\<close> and \<^verbatim>\<open>py::object\<close>.\<close>

datatype payload = IValue | PyObject

datatype rref_kind = OwnerRRef payload | UserRRef payload

text \<open>
  Modelled from the spec: rref.h is not among the sources. A \<^verbatim>\<open>std::shared_ptr<RRef>\<close>
  is modelled by the identity of the object it points to (\<open>oid\<close>, the serial number of
  the \<^verbatim>\<open>new\<close> that made it) together with the object's immutable members. Two pointers
  are the same object exactly when the records are equal. An owner reference has the
  implicit fork id equal to its rref id.
\<close>

record RRef =
  oid :: nat
  kind :: rref_kind
  ownerId :: worker_id_t
  rrefId :: RRefId
  forkId :: ForkId

definition owner :: "RRef \<Rightarrow> worker_id_t" where
  "owner r = ownerId r"

definition isOwner :: "RRef \<Rightarrow> bool" where
  "isOwner r = (case kind r of OwnerRRef _ \<Rightarrow> True | UserRRef _ \<Rightarrow> False)"

text \<open>
  Modelled from the spec: the fork descriptor \<^verbatim>\<open>{ rref_id, fork_id, parent }\<close>. The spec
  names \<^verbatim>\<open>parent\<close> without saying what it holds; the model stores the id of the forking
  worker there, and nothing below reads it.
\<close>

record RRefForkData =
  fork_rrefId :: RRefId
  fork_forkId :: ForkId
  fork_parent :: worker_id_t

subsection \<open>Messages and callbacks\<close>

text \<open>
  Modelled from the spec: rref_proto.h and the agent are not among the sources. A message
  is the value of its constructor; \<^verbatim>\<open>agent_->send\<close> appends the destination, the message
  and the callback attached to the returned future to the list \<open>sent\<close>. A callback is
  kept as data: the call its lambda makes once \<^verbatim>\<open>handleException\<close> has let the reply
  through, \<^verbatim>\<open>delForkOfOwner\<close> with the captured ids or \<^verbatim>\<open>finishForkRequest\<close> with the fork
  id of the reply.
\<close>

datatype Message =
    RRefUserAccept RRefId ForkId
  | RRefForkNotify RRefId ForkId worker_id_t
  | RRefForkAccept ForkId
  | Exception string

datatype Callback =
    DelForkOfOwnerCb RRefId ForkId
  | FinishForkRequestCb

datatype error =
    CheckFailed string
  | InternalAssertFailed string
  | RuntimeError string

subsection \<open>The context\<close>

type_synonym thread_id = nat
type_synonym message_id = "64 word"

record RRefContext =
  workerId :: worker_id_t
  nextLocalId :: local_id_t
  nextOid :: nat
  rrefArgs :: "thread_id \<Rightarrow> RRef list"
  pendingRRefArgs :: "message_id \<rightharpoonup> RRef list"
  owners :: "RRefId \<rightharpoonup> RRef"
  forks :: "RRefId \<rightharpoonup> ForkId set"
  pendingUsers :: "ForkId \<rightharpoonup> RRef"
  pendingForkRequests :: "ForkId \<rightharpoonup> RRef"
  pendingAcceptedUsers :: "ForkId set"
  sent :: "(worker_id_t \<times> Message \<times> Callback) list"

text \<open>
  The constructor \<^verbatim>\<open>RRefContext(agent)\<close>: every table is empty. The counter
  \<^verbatim>\<open>nextLocalId_\<close> is a static atomic, zero at start; \<^verbatim>\<open>rrefArgs_\<close> is thread local and
  starts empty in every thread.
\<close>

definition initContext :: "worker_id_t \<Rightarrow> RRefContext" where
  "initContext w =
     \<lparr> workerId = w, nextLocalId = 0, nextOid = 0,
       rrefArgs = (\<lambda>_. []), pendingRRefArgs = Map.empty,
       owners = Map.empty, forks = Map.empty,
       pendingUsers = Map.empty, pendingForkRequests = Map.empty,
       pendingAcceptedUsers = {}, sent = [] \<rparr>"

text \<open>\<^verbatim>\<open>handleException\<close> rethrows the payload of an \<^verbatim>\<open>EXCEPTION\<close> message.\<close>

definition handleException :: "Message \<Rightarrow> error + unit" where
  "handleException message =
     (case message of Exception err \<Rightarrow> Inl (RuntimeError err) | _ \<Rightarrow> Inr ())"

definition getWorkerId :: "RRefContext \<Rightarrow> worker_id_t" where
  "getWorkerId s = workerId s"

text \<open>\<^verbatim>\<open>GloballyUniqueId(getWorkerId(), nextLocalId_++)\<close>: the addition wraps at 64 bits.\<close>

definition genGloballyUniqueId :: "RRefContext \<Rightarrow> GloballyUniqueId \<times> RRefContext" where
  "genGloballyUniqueId s =
     (\<lparr> createdOn = getWorkerId s, localId = nextLocalId s \<rparr>,
      s\<lparr> nextLocalId := nextLocalId s + 1 \<rparr>)"

text \<open>
  Modelled from the spec: the constructors of \<^verbatim>\<open>UserRRef<T>\<close> and \<^verbatim>\<open>OwnerRRef<T>\<close> and
  \<^verbatim>\<open>RRef::fork\<close> live in rref.h. Each \<^verbatim>\<open>new\<close> takes the next object identity. \<^verbatim>\<open>fork()\<close>
  mints a new fork id with the identifier allocator and touches no table.
\<close>

definition newUserRRef ::
  "payload \<Rightarrow> worker_id_t \<Rightarrow> RRefId \<Rightarrow> ForkId \<Rightarrow> RRefContext \<Rightarrow> RRef \<times> RRefContext" where
  "newUserRRef T ownerId' rrefId' forkId' s =
     (\<lparr> oid = nextOid s, kind = UserRRef T, ownerId = ownerId',
        rrefId = rrefId', forkId = forkId' \<rparr>,
      s\<lparr> nextOid := Suc (nextOid s) \<rparr>)"

definition newOwnerRRef ::
  "payload \<Rightarrow> worker_id_t \<Rightarrow> RRefId \<Rightarrow> RRefContext \<Rightarrow> RRef \<times> RRefContext" where
  "newOwnerRRef T ownerId' rrefId' s =
     (\<lparr> oid = nextOid s, kind = OwnerRRef T, ownerId = ownerId',
        rrefId = rrefId', forkId = rrefId' \<rparr>,
      s\<lparr> nextOid := Suc (nextOid s) \<rparr>)"

definition fork :: "RRef \<Rightarrow> RRefContext \<Rightarrow> RRefForkData \<times> RRefContext" where
  "fork rref s =
     (case genGloballyUniqueId s of (newForkId, s1) \<Rightarrow>
        (\<lparr> fork_rrefId = rrefId rref, fork_forkId = newForkId,
           fork_parent = getWorkerId s \<rparr>, s1))"

text \<open>
  \<^verbatim>\<open>std::dynamic_pointer_cast<OwnerRRef<T>>\<close>: the pointer itself when the object is an
  \<^verbatim>\<open>OwnerRRef<T>\<close>, the null pointer (\<open>None\<close>) otherwise.
\<close>

definition dynamic_pointer_cast_OwnerRRef :: "payload \<Rightarrow> RRef \<Rightarrow> RRef option" where
  "dynamic_pointer_cast_OwnerRRef T r = (if kind r = OwnerRRef T then Some r else None)"

definition send :: "worker_id_t \<Rightarrow> Message \<Rightarrow> Callback \<Rightarrow> RRefContext \<Rightarrow> RRefContext" where
  "send dst msg cb s = s\<lparr> sent := sent s @ [(dst, msg, cb)] \<rparr>"

subsection \<open>Creating and finding references\<close>

definition createUserRRef ::
  "payload \<Rightarrow> worker_id_t \<Rightarrow> RRefId \<Rightarrow> ForkId \<Rightarrow> RRefContext \<Rightarrow> (error + RRef) \<times> RRefContext" where
  "createUserRRef T ownerId' rrefId' forkId' s =
     (if ownerId' = getWorkerId s
      then (Inl (CheckFailed ''RRef owner cannot create user RRef.''), s)
      else case newUserRRef T ownerId' rrefId' forkId' s of (userRRef, s1) \<Rightarrow>
        if pendingUsers s1 forkId' \<noteq> None
        then (Inl (CheckFailed
               ''Inconsistent state, attempt to create the same UserRRef twice.''), s1)
        else if forkId' \<notin> pendingAcceptedUsers s1
        then (Inr userRRef, s1\<lparr> pendingUsers := (pendingUsers s1)(forkId' \<mapsto> userRRef) \<rparr>)
        else (Inr userRRef,
              s1\<lparr> pendingAcceptedUsers := pendingAcceptedUsers s1 - {forkId'} \<rparr>))"

definition getOrCreateOwnerRRef ::
  "payload \<Rightarrow> RRefId \<Rightarrow> RRefContext \<Rightarrow> RRef option \<times> RRefContext" where
  "getOrCreateOwnerRRef T rrefId' s =
     (case owners s rrefId' of
        None \<Rightarrow>
          (case newOwnerRRef T (getWorkerId s) rrefId' s of (rref, s1) \<Rightarrow>
             (Some rref, s1\<lparr> owners := (owners s1)(rrefId rref \<mapsto> rref) \<rparr>))
      | Some r \<Rightarrow> (dynamic_pointer_cast_OwnerRRef T r, s))"

definition getOrCreateRRef ::
  "payload \<Rightarrow> worker_id_t \<Rightarrow> RRefId \<Rightarrow> ForkId \<Rightarrow> RRefContext
     \<Rightarrow> (error + RRef option) \<times> RRefContext" where
  "getOrCreateRRef T ownerId' rrefId' forkId' s =
     (if ownerId' = getWorkerId s
      then (case getOrCreateOwnerRRef T rrefId' s of (r, s1) \<Rightarrow> (Inr r, s1))
      else (case createUserRRef T ownerId' rrefId' forkId' s of
              (Inl e, s1) \<Rightarrow> (Inl e, s1)
            | (Inr u, s1) \<Rightarrow> (Inr (Some u), s1)))"

subsection \<open>Forks of an owner\<close>

text \<open>
  \<^verbatim>\<open>forks_[rrefId]\<close> inserts an empty set when the key is missing, before the assertion.
\<close>

definition addForkOfOwner :: "RRefId \<Rightarrow> ForkId \<Rightarrow> RRefContext \<Rightarrow> (error + unit) \<times> RRefContext" where
  "addForkOfOwner rrefId' forkId' s =
     (let rrefForks = (case forks s rrefId' of None \<Rightarrow> {} | Some fs \<Rightarrow> fs);
          s1 = s\<lparr> forks := (forks s)(rrefId' \<mapsto> rrefForks) \<rparr>
      in if forkId' \<in> rrefForks
         then (Inl (InternalAssertFailed ''Got fork notification twice on the same RRef ''), s1)
         else (Inr (), s1\<lparr> forks := (forks s1)(rrefId' \<mapsto> insert forkId' rrefForks) \<rparr>))"

text \<open>
  The source erases \<^verbatim>\<open>rrefId\<close> from the fork set (\<^verbatim>\<open>rrefForks.erase(rrefId)\<close>), and so
  does the model.
\<close>

definition delForkOfOwner :: "RRefId \<Rightarrow> ForkId \<Rightarrow> RRefContext \<Rightarrow> (error + unit) \<times> RRefContext" where
  "delForkOfOwner rrefId' forkId' s =
     (case forks s rrefId' of
        None \<Rightarrow>
          (Inl (InternalAssertFailed
             ''Inconsistent states, deleting a fork before the owner knows it.''), s)
      | Some rrefForks \<Rightarrow>
          if forkId' \<notin> rrefForks
          then (Inl (InternalAssertFailed ''Attempt to delete a non-exist fork ''), s)
          else
            let rrefForks' = rrefForks - {rrefId'};
                s1 = s\<lparr> forks := (forks s)(rrefId' \<mapsto> rrefForks') \<rparr>
            in if rrefForks' = {}
               then (Inr (), s1\<lparr> owners := (owners s1)(rrefId' := None),
                                 forks := (forks s1)(rrefId' := None) \<rparr>)
               else (Inr (), s1))"

subsection \<open>Accepting and finishing\<close>

definition acceptUserRRef :: "RRefId \<Rightarrow> ForkId \<Rightarrow> RRefContext \<Rightarrow> (error + Message) \<times> RRefContext" where
  "acceptUserRRef rrefId' forkId' s =
     (case addForkOfOwner rrefId' forkId' s of
        (Inl e, s1) \<Rightarrow> (Inl e, s1)
      | (Inr _, s1) \<Rightarrow> (Inr (RRefUserAccept rrefId' forkId'), s1))"

definition acceptForkRequest ::
  "RRefId \<Rightarrow> ForkId \<Rightarrow> worker_id_t \<Rightarrow> RRefContext \<Rightarrow> (error + Message) \<times> RRefContext" where
  "acceptForkRequest rrefId' forkId' forkDst s =
     (case acceptUserRRef rrefId' forkId' s of
        (Inl e, s1) \<Rightarrow> (Inl e, s1)
      | (Inr msg, s1) \<Rightarrow>
          (Inr (RRefForkAccept forkId'),
           send forkDst msg (DelForkOfOwnerCb rrefId' forkId') s1))"

definition finishForkRequest :: "ForkId \<Rightarrow> RRefContext \<Rightarrow> (error + unit) \<times> RRefContext" where
  "finishForkRequest forkId' s =
     (if pendingForkRequests s forkId' = None
      then (Inl (InternalAssertFailed ''Cannot finish a non-exist fork request.''), s)
      else (Inr (), s\<lparr> pendingForkRequests := (pendingForkRequests s)(forkId' := None) \<rparr>))"

definition finishUserRRef :: "RRefId \<Rightarrow> ForkId \<Rightarrow> RRefContext \<Rightarrow> (error + unit) \<times> RRefContext" where
  "finishUserRRef rrefId' forkId' s =
     (if forkId' \<in> pendingAcceptedUsers s
      then (Inl (InternalAssertFailed
              ''Inconsistent state, attempt to accept the same UserRRef twice.''), s)
      else case pendingUsers s forkId' of
        Some u \<Rightarrow>
          if rrefId u \<noteq> rrefId'
          then (Inl (InternalAssertFailed
                  ''Attempt to accept a fork with incorrect RRefId.''), s)
          else (Inr (), s\<lparr> pendingUsers := (pendingUsers s)(forkId' := None) \<rparr>)
      | None \<Rightarrow>
          (Inr (), s\<lparr> pendingAcceptedUsers := insert forkId' (pendingAcceptedUsers s) \<rparr>))"

subsection \<open>Forking\<close>

text \<open>
  \<^verbatim>\<open>forkTo\<close> runs on the calling thread \<open>t\<close>, whose \<^verbatim>\<open>rrefArgs_\<close> it extends first.
\<close>

definition forkTo ::
  "thread_id \<Rightarrow> RRef \<Rightarrow> worker_id_t \<Rightarrow> RRefContext \<Rightarrow> (error + RRefForkData) \<times> RRefContext" where
  "forkTo t rref forkDst s =
     (let s1 = s\<lparr> rrefArgs := (rrefArgs s)(t := rrefArgs s t @ [rref]) \<rparr>
      in case fork rref s1 of (forkRequest, s2) \<Rightarrow>
        if owner rref \<noteq> forkDst then
          if isOwner rref then
            (case acceptUserRRef (fork_rrefId forkRequest) (fork_forkId forkRequest) s2 of
               (Inl e, s3) \<Rightarrow> (Inl e, s3)
             | (Inr msg, s3) \<Rightarrow>
                 (Inr forkRequest,
                  send forkDst msg
                    (DelForkOfOwnerCb (fork_rrefId forkRequest) (fork_forkId forkRequest)) s3))
          else
            (let s3 = s2\<lparr> pendingForkRequests :=
                          (pendingForkRequests s2)(fork_forkId forkRequest \<mapsto> rref) \<rparr>
             in (Inr forkRequest,
                 send (owner rref)
                   (RRefForkNotify (fork_rrefId forkRequest) (fork_forkId forkRequest) forkDst)
                   FinishForkRequestCb s3))
        else (Inr forkRequest, s2))"

subsection \<open>Pinned arguments\<close>

definition addRRefArgs :: "thread_id \<Rightarrow> message_id \<Rightarrow> RRefContext \<Rightarrow> (error + unit) \<times> RRefContext" where
  "addRRefArgs t messageId s =
     (if pendingRRefArgs s messageId \<noteq> None
      then (Inl (InternalAssertFailed ''Cannot set RRef args on the same message twice.''), s)
      else (Inr (), s\<lparr> pendingRRefArgs := (pendingRRefArgs s)(messageId \<mapsto> rrefArgs s t),
                        rrefArgs := (rrefArgs s)(t := []) \<rparr>))"

definition delRRefArgs :: "message_id \<Rightarrow> RRefContext \<Rightarrow> (error + unit) \<times> RRefContext" where
  "delRRefArgs messageId s =
     (if pendingRRefArgs s messageId = None
      then (Inl (InternalAssertFailed ''Attempt to delete RRef args for non-exist message.''), s)
      else (Inr (), s\<lparr> pendingRRefArgs := (pendingRRefArgs s)(messageId := None) \<rparr>))"

subsection \<open>Sequences of calls\<close>

text \<open>\<open>n\<close> successive calls of the identifier allocator, with the identifiers they return.\<close>

fun genIds :: "nat \<Rightarrow> RRefContext \<Rightarrow> GloballyUniqueId list \<times> RRefContext" where
  "genIds 0 s = ([], s)"
| "genIds (Suc n) s =
     (case genGloballyUniqueId s of (g, s1) \<Rightarrow>
        (case genIds n s1 of (gs, s2) \<Rightarrow> (g # gs, s2)))"

text \<open>\<open>k\<close> successive calls of \<^verbatim>\<open>getOrCreateOwnerRRef<T>(rrefId)\<close>, with what they return.\<close>

fun getOrCreateOwnerRRef_times ::
  "nat \<Rightarrow> payload \<Rightarrow> RRefId \<Rightarrow> RRefContext \<Rightarrow> RRef option list \<times> RRefContext" where
  "getOrCreateOwnerRRef_times 0 T rrefId' s = ([], s)"
| "getOrCreateOwnerRRef_times (Suc k) T rrefId' s =
     (case getOrCreateOwnerRRef T rrefId' s of (r, s1) \<Rightarrow>
        (case getOrCreateOwnerRRef_times k T rrefId' s1 of (rs, s2) \<Rightarrow> (r # rs, s2)))"

text \<open>
  A run of calls to \<^verbatim>\<open>createUserRRef\<close> and \<^verbatim>\<open>finishUserRRef\<close>, each of which succeeds:
  \<open>None\<close> as soon as one of them throws.
\<close>

datatype call =
    CreateUser payload worker_id_t RRefId ForkId
  | FinishUser RRefId ForkId

fun run_calls :: "call list \<Rightarrow> RRefContext \<Rightarrow> RRefContext option" where
  "run_calls [] s = Some s"
| "run_calls (CreateUser T ownerId' rrefId' forkId' # cs) s =
     (case createUserRRef T ownerId' rrefId' forkId' s of
        (Inl e, s1) \<Rightarrow> None
      | (Inr u, s1) \<Rightarrow> run_calls cs s1)"
| "run_calls (FinishUser rrefId' forkId' # cs) s =
     (case finishUserRRef rrefId' forkId' s of
        (Inl e, s1) \<Rightarrow> None
      | (Inr u, s1) \<Rightarrow> run_calls cs s1)"

subsection \<open>Sample identifiers\<close>

text \<open>The identifiers of the spec's scenarios: reference \<open>(0,1)\<close>, fork \<open>(1,2)\<close>.\<close>

abbreviation ex_rrefId :: RRefId where
  "ex_rrefId \<equiv> \<lparr> createdOn = 0, localId = 1 \<rparr>"

abbreviation ex_forkId :: ForkId where
  "ex_forkId \<equiv> \<lparr> createdOn = 1, localId = 2 \<rparr>"

text \<open>The user reference that worker 1 builds first for that fork, owned by worker 0.\<close>

abbreviation ex_user :: RRef where
  "ex_user \<equiv> \<lparr> oid = 0, kind = UserRRef IValue, ownerId = 0,
                rrefId = ex_rrefId, forkId = ex_forkId \<rparr>"

text \<open>The owner reference that worker 0 builds first for that reference.\<close>

abbreviation ex_owner :: RRef where
  "ex_owner \<equiv> \<lparr> oid = 0, kind = OwnerRRef IValue, ownerId = 0,
                 rrefId = ex_rrefId, forkId = ex_rrefId \<rparr>"

text \<open>The same owner reference built through the \<^verbatim>\<open>py::object\<close> instantiation.\<close>

abbreviation ex_owner_py :: RRef where
  "ex_owner_py \<equiv> \<lparr> oid = 0, kind = OwnerRRef PyObject, ownerId = 0,
                    rrefId = ex_rrefId, forkId = ex_rrefId \<rparr>"

subsection \<open>The two pending tables share no fork id\<close>

definition pending_disjoint :: "RRefContext \<Rightarrow> bool" where
  "pending_disjoint s = (dom (pendingUsers s) \<inter> pendingAcceptedUsers s = {})"

section \<open>Pinned arguments\<close>

text \<open>
  C10. When \<open>pendingRRefArgs\<close> already has an entry for the message id, \<^verbatim>\<open>addRRefArgs\<close>
  fails its assertion and leaves the whole context, \<open>pendingRRefArgs\<close> included, as it
  was.
\<close>

theorem addRRefArgs_twice_fails:
  assumes "pendingRRefArgs s m = Some args"
  shows "addRRefArgs t m s =
           (Inl (InternalAssertFailed ''Cannot set RRef args on the same message twice.''), s)"
  using assms by (simp add: addRRefArgs_def)

theorem addRRefArgs_twice_fails_witness:
  "pendingRRefArgs (snd (addRRefArgs 0 7 (initContext 1))) 7 = Some []
   \<and> addRRefArgs 0 7 (snd (addRRefArgs 0 7 (initContext 1))) =
       (Inl (InternalAssertFailed ''Cannot set RRef args on the same message twice.''),
        snd (addRRefArgs 0 7 (initContext 1)))"
  using addRRefArgs_twice_fails [of "snd (addRRefArgs 0 7 (initContext 1))" 7 "[]" 0]
  by (simp add: addRRefArgs_def initContext_def)

section \<open>The identifier allocator\<close>

text \<open>
  The identifiers of \<open>n\<close> successive calls in closed form: the worker's id, and the
  counter's start plus the call's index, the sum taken at 64 bits.
\<close>

lemma genIds_closed:
  "fst (genIds n s) =
     map (\<lambda>i. \<lparr> createdOn = getWorkerId s, localId = nextLocalId s + of_nat i \<rparr>) [0..<n]"
proof (induction n arbitrary: s)
  case 0
  show ?case by simp
next
  case (Suc n)
  let ?s1 = "s\<lparr> nextLocalId := nextLocalId s + 1 \<rparr>"
  have "fst (genIds (Suc n) s) =
          \<lparr> createdOn = getWorkerId s, localId = nextLocalId s \<rparr> # fst (genIds n ?s1)"
    by (simp add: genGloballyUniqueId_def split: prod.splits)
  also have "fst (genIds n ?s1) =
          map (\<lambda>i. \<lparr> createdOn = getWorkerId s,
                      localId = nextLocalId s + of_nat (Suc i) \<rparr>) [0..<n]"
    by (simp add: Suc.IH getWorkerId_def add.assoc add.commute)
  finally show ?case
    by (simp add: upt_conv_Cons map_Suc_upt [symmetric] del: upt_Suc)
qed

lemma genIds_length: "length (fst (genIds n s)) = n"
  by (simp add: genIds_closed)

lemma unat_counter_no_wrap:
  "unat (c :: local_id_t) + i < 2 ^ 64 \<Longrightarrow> unat (c + of_nat i) = unat c + i"
  by (simp add: unat_word_ariths unat_of_nat)

text \<open>
  C8. The spec leaves wraparound of the 64-bit counter out of scope. For every run of
  \<open>n\<close> calls that stays within the counter's range, each call returns the local worker's
  id, the local ids are strictly increasing from call to call, and no identifier is
  returned twice. A fresh context starts the counter at 0, so this covers every run of
  up to \<open>2 ^ 64\<close> calls on it.
\<close>

theorem genIds_unique_without_wrap:
  assumes "unat (nextLocalId s) + n \<le> 2 ^ 64"
  shows "length (fst (genIds n s)) = n
       \<and> (\<forall>g \<in> set (fst (genIds n s)). createdOn g = getWorkerId s)
       \<and> sorted_wrt (<) (map localId (fst (genIds n s)))
       \<and> distinct (fst (genIds n s))"
proof -
  let ?f = "\<lambda>i. nextLocalId s + of_nat i"
  have loc: "map localId (fst (genIds n s)) = map ?f [0..<n]"
    by (simp add: genIds_closed o_def)
  have inc: "?f i < ?f j" if "i < j" "j < n" for i j
  proof -
    have "unat (?f i) = unat (nextLocalId s) + i" "unat (?f j) = unat (nextLocalId s) + j"
      using that assms by (simp_all add: unat_counter_no_wrap)
    with that show ?thesis by (simp add: word_less_nat_alt)
  qed
  have srt: "sorted_wrt (<) (map localId (fst (genIds n s)))"
    unfolding loc by (simp add: sorted_wrt_iff_nth_less inc)
  have "distinct (map localId (fst (genIds n s)))"
    using srt strict_sorted_iff by blast
  then have "distinct (fst (genIds n s))" by (simp add: distinct_map)
  moreover have "\<forall>g \<in> set (fst (genIds n s)). createdOn g = getWorkerId s"
    by (auto simp: genIds_closed)
  ultimately show ?thesis using srt by (simp add: genIds_length)
qed

theorem genIds_unique_without_wrap_witness:
  "unat (nextLocalId (initContext 3)) + 3 \<le> 2 ^ 64
   \<and> fst (genIds 3 (initContext 3)) =
       [\<lparr> createdOn = 3, localId = 0 \<rparr>, \<lparr> createdOn = 3, localId = 1 \<rparr>,
        \<lparr> createdOn = 3, localId = 2 \<rparr>]
   \<and> sorted_wrt (<) (map localId (fst (genIds 3 (initContext 3))))
   \<and> distinct (fst (genIds 3 (initContext 3)))"
  using genIds_unique_without_wrap [of "initContext 3" 3]
  by (simp add: numeral_3_eq_3 genGloballyUniqueId_def initContext_def getWorkerId_def)

text \<open>
  C7, as amended. When \<open>pendingRRefArgs\<close> has no entry for the message id, \<^verbatim>\<open>addRRefArgs\<close>
  moves the calling thread's whole \<open>rrefArgs\<close> list into \<open>pendingRRefArgs\<close> under that id
  and leaves the thread's list empty. \<^verbatim>\<open>delRRefArgs\<close> succeeds when the id has an entry,
  and in every case leaves \<open>pendingRRefArgs\<close> without that entry and with every other one
  as it was.
\<close>

theorem rrefArgs_transfer_release:
  "(pendingRRefArgs s m = None \<longrightarrow>
      addRRefArgs t m s =
        (Inr (), s\<lparr> pendingRRefArgs := (pendingRRefArgs s)(m \<mapsto> rrefArgs s t),
                    rrefArgs := (rrefArgs s)(t := []) \<rparr>))
 \<and> (pendingRRefArgs s m \<noteq> None \<longrightarrow> fst (delRRefArgs m s) = Inr ())
 \<and> pendingRRefArgs (snd (delRRefArgs m s)) = (pendingRRefArgs s)(m := None)"
  by (auto simp: addRRefArgs_def delRRefArgs_def)

theorem rrefArgs_transfer_release_witness:
  "pendingRRefArgs (snd (forkTo 0 ex_user 0 (initContext 1))) 7 = None
   \<and> addRRefArgs 0 7 (snd (forkTo 0 ex_user 0 (initContext 1))) =
       (Inr (), (initContext 1)\<lparr> nextLocalId := 1, pendingRRefArgs := [7 \<mapsto> [ex_user]] \<rparr>)
   \<and> pendingRRefArgs (snd (addRRefArgs 0 7 (snd (forkTo 0 ex_user 0 (initContext 1))))) 7
       \<noteq> None
   \<and> delRRefArgs 7 (snd (addRRefArgs 0 7 (snd (forkTo 0 ex_user 0 (initContext 1))))) =
       (Inr (), (initContext 1)\<lparr> nextLocalId := 1 \<rparr>)"
  using rrefArgs_transfer_release [where s = "snd (forkTo 0 ex_user 0 (initContext 1))"
      and m = 7 and t = 0]
    rrefArgs_transfer_release
      [where s = "snd (addRRefArgs 0 7 (snd (forkTo 0 ex_user 0 (initContext 1))))"
        and m = 7 and t = 0]
  by (simp add: addRRefArgs_def delRRefArgs_def forkTo_def fork_def genGloballyUniqueId_def
      getWorkerId_def Let_def owner_def initContext_def fun_eq_iff)

text \<open>
  C7 as stated fails at a message id that has an entry: with \<open>[ex_user]\<close> in the
  thread's list and message 7 already pinned, \<^verbatim>\<open>addRRefArgs\<close> throws; the list is not
  moved and the thread's list is not emptied.
\<close>

theorem rrefArgs_transfer_counterexample:
  "addRRefArgs 0 7 ((initContext 1)\<lparr> rrefArgs := (\<lambda>_. [])(0 := [ex_user]),
                                     pendingRRefArgs := [7 \<mapsto> []] \<rparr>) =
     (Inl (InternalAssertFailed ''Cannot set RRef args on the same message twice.''),
      (initContext 1)\<lparr> rrefArgs := (\<lambda>_. [])(0 := [ex_user]),
                       pendingRRefArgs := [7 \<mapsto> []] \<rparr>)"
  by (simp add: addRRefArgs_def initContext_def)

section \<open>Deleting a fork of an owner\<close>

text \<open>
  C1. Worker 0 owns reference \<open>(0,1)\<close> and has registered its only fork \<open>(1,2)\<close>.
  \<^verbatim>\<open>delForkOfOwner\<close> of that fork returns normally and changes nothing: the fork is
  still in \<open>forks\<close>, and the entries of \<open>forks\<close> and \<open>owners\<close> for the reference are
  still there.
\<close>

theorem delForkOfOwner_leaves_fork:
  "delForkOfOwner ex_rrefId ex_forkId
     (snd (addForkOfOwner ex_rrefId ex_forkId
        (snd (getOrCreateOwnerRRef IValue ex_rrefId (initContext 0))))) =
   (Inr (),
    (initContext 0)\<lparr> nextOid := 1,
       owners := [ex_rrefId \<mapsto> ex_owner], forks := [ex_rrefId \<mapsto> {ex_forkId}] \<rparr>)"
  by (simp add: delForkOfOwner_def addForkOfOwner_def getOrCreateOwnerRRef_def
      newOwnerRRef_def getWorkerId_def initContext_def Let_def)

section \<open>Creating a user reference\<close>

text \<open>
  C2. \<^verbatim>\<open>createUserRRef\<close> fails when the owner is the local worker and fails when the
  fork id is a key of \<open>pendingUsers\<close>. Otherwise it returns a newly built user reference
  with the given owner, rref id and fork id; if the fork id was in
  \<open>pendingAcceptedUsers\<close> it has been removed from there and \<open>pendingUsers\<close> is as before,
  and if it was not, \<open>pendingUsers\<close> now maps the fork id to the new reference.
\<close>

theorem createUserRRef_spec:
  "(ownerId' = getWorkerId s \<longrightarrow> isl (fst (createUserRRef T ownerId' rrefId' forkId' s)))
 \<and> (pendingUsers s forkId' \<noteq> None \<longrightarrow> isl (fst (createUserRRef T ownerId' rrefId' forkId' s)))
 \<and> (ownerId' \<noteq> getWorkerId s \<and> pendingUsers s forkId' = None \<longrightarrow>
      (\<exists>u s'. createUserRRef T ownerId' rrefId' forkId' s = (Inr u, s')
         \<and> u = \<lparr> oid = nextOid s, kind = UserRRef T, ownerId = ownerId',
                 rrefId = rrefId', forkId = forkId' \<rparr>
         \<and> (if forkId' \<in> pendingAcceptedUsers s
            then pendingAcceptedUsers s' = pendingAcceptedUsers s - {forkId'}
               \<and> pendingUsers s' = pendingUsers s
            else pendingUsers s' = (pendingUsers s)(forkId' \<mapsto> u)
               \<and> pendingAcceptedUsers s' = pendingAcceptedUsers s)))"
  by (auto simp: createUserRRef_def newUserRRef_def)

theorem createUserRRef_spec_witness:
  "isl (fst (createUserRRef IValue 1 ex_rrefId ex_forkId (initContext 1)))
 \<and> isl (fst (createUserRRef IValue 0 ex_rrefId ex_forkId
               (snd (createUserRRef IValue 0 ex_rrefId ex_forkId (initContext 1)))))
 \<and> createUserRRef IValue 0 ex_rrefId ex_forkId (initContext 1) =
      (Inr ex_user, (initContext 1)\<lparr> nextOid := 1, pendingUsers := [ex_forkId \<mapsto> ex_user] \<rparr>)
 \<and> createUserRRef IValue 0 ex_rrefId ex_forkId
      (snd (finishUserRRef ex_rrefId ex_forkId (initContext 1))) =
      (Inr ex_user, (initContext 1)\<lparr> nextOid := 1 \<rparr>)"
  using createUserRRef_spec [where ownerId' = 1 and s = "initContext 1" and T = IValue
      and rrefId' = ex_rrefId and forkId' = ex_forkId]
    createUserRRef_spec [where ownerId' = 0
      and s = "snd (createUserRRef IValue 0 ex_rrefId ex_forkId (initContext 1))"
      and T = IValue and rrefId' = ex_rrefId and forkId' = ex_forkId]
    createUserRRef_spec [where ownerId' = 0 and s = "initContext 1" and T = IValue
      and rrefId' = ex_rrefId and forkId' = ex_forkId]
    createUserRRef_spec [where ownerId' = 0
      and s = "snd (finishUserRRef ex_rrefId ex_forkId (initContext 1))"
      and T = IValue and rrefId' = ex_rrefId and forkId' = ex_forkId]
  by (simp add: createUserRRef_def newUserRRef_def finishUserRRef_def getWorkerId_def
      initContext_def)

section \<open>Receiving the owner's acceptance\<close>

text \<open>
  C3, as amended. \<^verbatim>\<open>finishUserRRef\<close> fails, changing nothing, when the fork id is
  already in \<open>pendingAcceptedUsers\<close>. Otherwise it removes the fork id's entry of
  \<open>pendingUsers\<close> when there is one and its reference carries the given rref id, and
  inserts the fork id into \<open>pendingAcceptedUsers\<close> when there is none. A second call
  with the same fork id fails whenever \<open>pendingUsers\<close> had no entry for it at the first
  call.
\<close>

theorem finishUserRRef_spec:
  "(forkId' \<in> pendingAcceptedUsers s \<longrightarrow>
      isl (fst (finishUserRRef rrefId' forkId' s)) \<and> snd (finishUserRRef rrefId' forkId' s) = s)
 \<and> (forkId' \<notin> pendingAcceptedUsers s \<longrightarrow>
      (\<forall>u. pendingUsers s forkId' = Some u \<and> rrefId u = rrefId' \<longrightarrow>
         finishUserRRef rrefId' forkId' s =
           (Inr (), s\<lparr> pendingUsers := (pendingUsers s)(forkId' := None) \<rparr>))
    \<and> (pendingUsers s forkId' = None \<longrightarrow>
         finishUserRRef rrefId' forkId' s =
           (Inr (), s\<lparr> pendingAcceptedUsers := insert forkId' (pendingAcceptedUsers s) \<rparr>)))
 \<and> (pendingUsers s forkId' = None \<longrightarrow>
      isl (fst (finishUserRRef rrefId'' forkId' (snd (finishUserRRef rrefId' forkId' s)))))"
  by (auto simp: finishUserRRef_def split: option.splits)

theorem finishUserRRef_spec_witness:
  "ex_forkId \<in> pendingAcceptedUsers (snd (finishUserRRef ex_rrefId ex_forkId (initContext 1)))
 \<and> isl (fst (finishUserRRef ex_rrefId ex_forkId
               (snd (finishUserRRef ex_rrefId ex_forkId (initContext 1)))))
 \<and> finishUserRRef ex_rrefId ex_forkId
      (snd (createUserRRef IValue 0 ex_rrefId ex_forkId (initContext 1))) =
      (Inr (), (initContext 1)\<lparr> nextOid := 1 \<rparr>)
 \<and> finishUserRRef ex_rrefId ex_forkId (initContext 1) =
      (Inr (), (initContext 1)\<lparr> pendingAcceptedUsers := {ex_forkId} \<rparr>)"
  using finishUserRRef_spec [where s = "snd (finishUserRRef ex_rrefId ex_forkId (initContext 1))"
      and rrefId' = ex_rrefId and forkId' = ex_forkId and rrefId'' = ex_rrefId]
    finishUserRRef_spec
      [where s = "snd (createUserRRef IValue 0 ex_rrefId ex_forkId (initContext 1))"
        and rrefId' = ex_rrefId and forkId' = ex_forkId and rrefId'' = ex_rrefId]
    finishUserRRef_spec [where s = "initContext 1"
      and rrefId' = ex_rrefId and forkId' = ex_forkId and rrefId'' = ex_rrefId]
  by (simp add: createUserRRef_def newUserRRef_def finishUserRRef_def getWorkerId_def
      initContext_def)

text \<open>
  C3 as stated fails after a \<^verbatim>\<open>createUserRRef\<close>. Worker 1 builds the user for fork
  \<open>(1,2)\<close>; an acceptance naming another reference, \<open>(0,5)\<close>, throws and leaves the entry
  of \<open>pendingUsers\<close> in place; the acceptance for \<open>(0,1)\<close> then succeeds, and so does a
  second one with the same fork id, which puts the fork id into \<open>pendingAcceptedUsers\<close>.
\<close>

theorem finishUserRRef_twice_counterexample:
  "finishUserRRef \<lparr> createdOn = 0, localId = 5 \<rparr> ex_forkId
     (snd (createUserRRef IValue 0 ex_rrefId ex_forkId (initContext 1))) =
     (Inl (InternalAssertFailed ''Attempt to accept a fork with incorrect RRefId.''),
      (initContext 1)\<lparr> nextOid := 1, pendingUsers := [ex_forkId \<mapsto> ex_user] \<rparr>)
 \<and> finishUserRRef ex_rrefId ex_forkId
     (snd (createUserRRef IValue 0 ex_rrefId ex_forkId (initContext 1))) =
     (Inr (), (initContext 1)\<lparr> nextOid := 1 \<rparr>)
 \<and> finishUserRRef ex_rrefId ex_forkId
     (snd (finishUserRRef ex_rrefId ex_forkId
        (snd (createUserRRef IValue 0 ex_rrefId ex_forkId (initContext 1))))) =
     (Inr (), (initContext 1)\<lparr> nextOid := 1, pendingAcceptedUsers := {ex_forkId} \<rparr>)"
  by (simp add: createUserRRef_def newUserRRef_def finishUserRRef_def getWorkerId_def
      initContext_def)

text \<open>
  C9. When \<open>pendingUsers\<close> holds, for the fork id, a reference whose rref id is not the
  one given, \<^verbatim>\<open>finishUserRRef\<close> fails and changes nothing; unless the fork id is also in
  \<open>pendingAcceptedUsers\<close>, where the first assertion fires, the failure is the
  assertion on the rref id.
\<close>

theorem finishUserRRef_wrong_rrefId:
  assumes "pendingUsers s forkId' = Some u" and "rrefId u \<noteq> rrefId'"
  shows "isl (fst (finishUserRRef rrefId' forkId' s))
       \<and> snd (finishUserRRef rrefId' forkId' s) = s
       \<and> (forkId' \<notin> pendingAcceptedUsers s \<longrightarrow>
            fst (finishUserRRef rrefId' forkId' s) =
              Inl (InternalAssertFailed ''Attempt to accept a fork with incorrect RRefId.''))"
  using assms by (simp add: finishUserRRef_def)

theorem finishUserRRef_wrong_rrefId_witness:
  "pendingUsers (snd (createUserRRef IValue 0 ex_rrefId ex_forkId (initContext 1))) ex_forkId
     = Some ex_user
   \<and> rrefId ex_user \<noteq> \<lparr> createdOn = 0, localId = 7 \<rparr>
   \<and> ex_forkId
       \<notin> pendingAcceptedUsers (snd (createUserRRef IValue 0 ex_rrefId ex_forkId (initContext 1)))
   \<and> finishUserRRef \<lparr> createdOn = 0, localId = 7 \<rparr> ex_forkId
       (snd (createUserRRef IValue 0 ex_rrefId ex_forkId (initContext 1))) =
     (Inl (InternalAssertFailed ''Attempt to accept a fork with incorrect RRefId.''),
      snd (createUserRRef IValue 0 ex_rrefId ex_forkId (initContext 1)))"
  using finishUserRRef_wrong_rrefId
    [where s = "snd (createUserRRef IValue 0 ex_rrefId ex_forkId (initContext 1))"
       and forkId' = ex_forkId and u = ex_user and rrefId' = "\<lparr> createdOn = 0, localId = 7 \<rparr>"]
  by (simp add: createUserRRef_def newUserRRef_def finishUserRRef_def getWorkerId_def
      initContext_def)

section \<open>The pending tables are disjoint\<close>

lemma createUserRRef_disjoint:
  "pending_disjoint s \<Longrightarrow> createUserRRef T ownerId' rrefId' forkId' s = (Inr u, s')
     \<Longrightarrow> pending_disjoint s'"
  by (auto simp: pending_disjoint_def createUserRRef_def newUserRRef_def split: if_splits)
    blast+

lemma finishUserRRef_disjoint:
  "pending_disjoint s \<Longrightarrow> finishUserRRef rrefId' forkId' s = (Inr u, s')
     \<Longrightarrow> pending_disjoint s'"
  by (auto simp: pending_disjoint_def finishUserRRef_def split: if_splits option.splits)
    blast+

lemma run_calls_disjoint:
  "pending_disjoint s \<Longrightarrow> run_calls cs s = Some s' \<Longrightarrow> pending_disjoint s'"
proof (induction cs s rule: run_calls.induct)
  case (1 s)
  then show ?case by simp
next
  case (2 T ownerId' rrefId' forkId' cs s)
  from "2.prems"(2) obtain u s1
    where step: "createUserRRef T ownerId' rrefId' forkId' s = (Inr u, s1)"
      and rest: "run_calls cs s1 = Some s'"
    by (auto split: prod.splits sum.splits)
  from "2.prems"(1) step have "pending_disjoint s1" by (rule createUserRRef_disjoint)
  with "2.IH" step rest show ?case by simp
next
  case (3 rrefId' forkId' cs s)
  from "3.prems"(2) obtain u s1
    where step: "finishUserRRef rrefId' forkId' s = (Inr u, s1)"
      and rest: "run_calls cs s1 = Some s'"
    by (auto split: prod.splits sum.splits)
  from "3.prems"(1) step have "pending_disjoint s1" by (rule finishUserRRef_disjoint)
  with "3.IH" step rest show ?case by simp
qed

lemma initContext_disjoint: "pending_disjoint (initContext w)"
  by (simp add: pending_disjoint_def initContext_def)

text \<open>
  C4. In every context reached from the empty one by a run of successful
  \<^verbatim>\<open>createUserRRef\<close> and \<^verbatim>\<open>finishUserRRef\<close> calls, no fork id is both a key of
  \<open>pendingUsers\<close> and a member of \<open>pendingAcceptedUsers\<close>.
\<close>

theorem pending_tables_never_both:
  assumes "run_calls cs (initContext w) = Some s"
  shows "\<not> (pendingUsers s f \<noteq> None \<and> f \<in> pendingAcceptedUsers s)"
  using run_calls_disjoint [OF initContext_disjoint assms]
  by (auto simp: pending_disjoint_def)

theorem pending_tables_never_both_witness:
  "run_calls [CreateUser IValue 0 ex_rrefId ex_forkId,
              FinishUser ex_rrefId ex_forkId,
              FinishUser ex_rrefId ex_forkId] (initContext 1) =
     Some ((initContext 1)\<lparr> nextOid := 1, pendingAcceptedUsers := {ex_forkId} \<rparr>)
   \<and> \<not> (pendingUsers ((initContext 1)\<lparr> nextOid := 1, pendingAcceptedUsers := {ex_forkId} \<rparr>)
            ex_forkId \<noteq> None
        \<and> ex_forkId \<in> pendingAcceptedUsers
            ((initContext 1)\<lparr> nextOid := 1, pendingAcceptedUsers := {ex_forkId} \<rparr>))"
  using pending_tables_never_both
    [where cs = "[CreateUser IValue 0 ex_rrefId ex_forkId,
              FinishUser ex_rrefId ex_forkId,
              FinishUser ex_rrefId ex_forkId]" and w = 1 and f = ex_forkId
       and s = "(initContext 1)\<lparr> nextOid := 1, pendingAcceptedUsers := {ex_forkId} \<rparr>"]
  by (simp add: createUserRRef_def newUserRRef_def finishUserRRef_def getWorkerId_def
      initContext_def)

section \<open>Finding or creating the owner reference\<close>

lemma getOrCreateOwnerRRef_first:
  "owners s rrefId' = None \<Longrightarrow>
     getOrCreateOwnerRRef T rrefId' s =
       (Some \<lparr> oid = nextOid s, kind = OwnerRRef T, ownerId = getWorkerId s,
               rrefId = rrefId', forkId = rrefId' \<rparr>,
        s\<lparr> nextOid := Suc (nextOid s),
           owners := (owners s)(rrefId' \<mapsto>
             \<lparr> oid = nextOid s, kind = OwnerRRef T, ownerId = getWorkerId s,
               rrefId = rrefId', forkId = rrefId' \<rparr>) \<rparr>)"
  by (simp add: getOrCreateOwnerRRef_def newOwnerRRef_def)

lemma getOrCreateOwnerRRef_existing:
  "owners s rrefId' = Some r \<Longrightarrow>
     getOrCreateOwnerRRef T rrefId' s = (dynamic_pointer_cast_OwnerRRef T r, s)"
  by (simp add: getOrCreateOwnerRRef_def)

text \<open>A call right after a call returns the same pointer and leaves the context alone.\<close>

lemma getOrCreateOwnerRRef_again:
  "getOrCreateOwnerRRef T rrefId' (snd (getOrCreateOwnerRRef T rrefId' s)) =
     getOrCreateOwnerRRef T rrefId' s"
proof (cases "owners s rrefId'")
  case None
  then show ?thesis
    by (simp add: getOrCreateOwnerRRef_first getOrCreateOwnerRRef_existing
        dynamic_pointer_cast_OwnerRRef_def)
next
  case (Some r)
  then show ?thesis by (simp add: getOrCreateOwnerRRef_existing)
qed

lemma getOrCreateOwnerRRef_times_fixed:
  "getOrCreateOwnerRRef T rrefId' s = (x, s)
     \<Longrightarrow> getOrCreateOwnerRRef_times k T rrefId' s = (replicate k x, s)"
  by (induction k) simp_all

text \<open>
  C5, as amended. \<open>k \<ge> 1\<close> calls of one instantiation \<^verbatim>\<open>getOrCreateOwnerRRef<T>\<close> with one
  rref id all return what the first call returned and leave the context as the first
  call left it. When \<open>owners\<close> had no entry for the rref id, the first call returns a
  newly built \<^verbatim>\<open>OwnerRRef<T>\<close> and adds exactly that entry to \<open>owners\<close>; when \<open>owners\<close>
  held an \<^verbatim>\<open>OwnerRRef<T>\<close> for it, the first call returns that object and changes
  nothing; when \<open>owners\<close> held an object of any other type for it, the first call
  returns the null pointer and changes nothing.
\<close>

theorem getOrCreateOwnerRRef_idempotent:
  assumes "1 \<le> k"
  shows "getOrCreateOwnerRRef_times k T rrefId' s =
           (replicate k (fst (getOrCreateOwnerRRef T rrefId' s)),
            snd (getOrCreateOwnerRRef T rrefId' s))
       \<and> (owners s rrefId' = None \<longrightarrow>
            getOrCreateOwnerRRef T rrefId' s =
              (Some \<lparr> oid = nextOid s, kind = OwnerRRef T, ownerId = getWorkerId s,
                      rrefId = rrefId', forkId = rrefId' \<rparr>,
               s\<lparr> nextOid := Suc (nextOid s),
                  owners := (owners s)(rrefId' \<mapsto>
                    \<lparr> oid = nextOid s, kind = OwnerRRef T, ownerId = getWorkerId s,
                      rrefId = rrefId', forkId = rrefId' \<rparr>) \<rparr>))
       \<and> (\<forall>r. owners s rrefId' = Some r \<and> kind r = OwnerRRef T \<longrightarrow>
            getOrCreateOwnerRRef T rrefId' s = (Some r, s))
       \<and> (\<forall>r. owners s rrefId' = Some r \<and> kind r \<noteq> OwnerRRef T \<longrightarrow>
            getOrCreateOwnerRRef T rrefId' s = (None, s))"
proof -
  let ?first = "getOrCreateOwnerRRef T rrefId' s"
  from assms obtain j where k: "k = Suc j" by (cases k) auto
  have "getOrCreateOwnerRRef T rrefId' (snd ?first) = (fst ?first, snd ?first)"
    by (simp add: getOrCreateOwnerRRef_again)
  then have "getOrCreateOwnerRRef_times j T rrefId' (snd ?first) =
               (replicate j (fst ?first), snd ?first)"
    by (rule getOrCreateOwnerRRef_times_fixed)
  then have "getOrCreateOwnerRRef_times k T rrefId' s =
               (replicate k (fst ?first), snd ?first)"
    unfolding k by (simp add: split_beta)
  then show ?thesis
    by (simp add: getOrCreateOwnerRRef_first getOrCreateOwnerRRef_existing
        dynamic_pointer_cast_OwnerRRef_def)
qed

theorem getOrCreateOwnerRRef_idempotent_witness:
  "(1::nat) \<le> 3 \<and> owners (initContext 0) ex_rrefId = None
   \<and> getOrCreateOwnerRRef_times 3 IValue ex_rrefId (initContext 0) =
       ([Some ex_owner, Some ex_owner, Some ex_owner],
        (initContext 0)\<lparr> nextOid := 1, owners := [ex_rrefId \<mapsto> ex_owner] \<rparr>)
   \<and> owners ((initContext 0)\<lparr> nextOid := 1, owners := [ex_rrefId \<mapsto> ex_owner] \<rparr>) ex_rrefId
       = Some ex_owner
   \<and> kind ex_owner = OwnerRRef IValue
   \<and> getOrCreateOwnerRRef_times 3 IValue ex_rrefId
       ((initContext 0)\<lparr> nextOid := 1, owners := [ex_rrefId \<mapsto> ex_owner] \<rparr>) =
       ([Some ex_owner, Some ex_owner, Some ex_owner],
        (initContext 0)\<lparr> nextOid := 1, owners := [ex_rrefId \<mapsto> ex_owner] \<rparr>)
   \<and> owners ((initContext 0)\<lparr> nextOid := 1, owners := [ex_rrefId \<mapsto> ex_owner_py] \<rparr>)
         ex_rrefId = Some ex_owner_py
   \<and> kind ex_owner_py \<noteq> OwnerRRef IValue
   \<and> getOrCreateOwnerRRef_times 3 IValue ex_rrefId
       ((initContext 0)\<lparr> nextOid := 1, owners := [ex_rrefId \<mapsto> ex_owner_py] \<rparr>) =
       ([None, None, None],
        (initContext 0)\<lparr> nextOid := 1, owners := [ex_rrefId \<mapsto> ex_owner_py] \<rparr>)"
  using getOrCreateOwnerRRef_idempotent [where s = "initContext 0" and rrefId' = ex_rrefId
      and k = 3 and T = IValue]
    getOrCreateOwnerRRef_idempotent
      [where s = "(initContext 0)\<lparr> nextOid := 1, owners := [ex_rrefId \<mapsto> ex_owner] \<rparr>"
        and rrefId' = ex_rrefId and k = 3 and T = IValue]
    getOrCreateOwnerRRef_idempotent
      [where s = "(initContext 0)\<lparr> nextOid := 1, owners := [ex_rrefId \<mapsto> ex_owner_py] \<rparr>"
        and rrefId' = ex_rrefId and k = 3 and T = IValue]
  by (simp add: getWorkerId_def initContext_def numeral_3_eq_3)

text \<open>
  C5 as stated fails across the two instantiations, which share \<open>owners\<close>. On a fresh
  context of worker 0, \<^verbatim>\<open>getOrCreateOwnerRRef<py::object>\<close> for reference \<open>(0,1)\<close> builds
  and stores the owner; \<^verbatim>\<open>getOrCreateOwnerRRef<IValue>\<close> for the same reference then
  finds the entry, its cast fails, and it returns the null pointer instead of the
  stored owner, leaving \<open>owners\<close> as it was.
\<close>

theorem getOrCreateOwnerRRef_other_payload_counterexample:
  "getOrCreateOwnerRRef PyObject ex_rrefId (initContext 0) =
     (Some ex_owner_py,
      (initContext 0)\<lparr> nextOid := 1, owners := [ex_rrefId \<mapsto> ex_owner_py] \<rparr>)
 \<and> getOrCreateOwnerRRef IValue ex_rrefId
       (snd (getOrCreateOwnerRRef PyObject ex_rrefId (initContext 0))) =
     (None, (initContext 0)\<lparr> nextOid := 1, owners := [ex_rrefId \<mapsto> ex_owner_py] \<rparr>)"
  by (simp add: getOrCreateOwnerRRef_def newOwnerRRef_def dynamic_pointer_cast_OwnerRRef_def
      getWorkerId_def initContext_def)

section \<open>Forking to the owner\<close>

text \<open>
  C6. When the destination is the owner of the reference, \<^verbatim>\<open>forkTo\<close> returns the
  descriptor that \<^verbatim>\<open>rref->fork()\<close> produces, sends nothing, leaves \<open>owners\<close>, \<open>forks\<close>,
  \<open>pendingUsers\<close>, \<open>pendingForkRequests\<close> and \<open>pendingAcceptedUsers\<close> as they were, and
  has appended the reference to the calling thread's \<open>rrefArgs\<close>.
\<close>

theorem forkTo_owner_destination:
  assumes "forkDst = owner rref"
  shows "fst (forkTo t rref forkDst s) = Inr (fst (fork rref s))
       \<and> sent (snd (forkTo t rref forkDst s)) = sent s
       \<and> owners (snd (forkTo t rref forkDst s)) = owners s
       \<and> forks (snd (forkTo t rref forkDst s)) = forks s
       \<and> pendingUsers (snd (forkTo t rref forkDst s)) = pendingUsers s
       \<and> pendingForkRequests (snd (forkTo t rref forkDst s)) = pendingForkRequests s
       \<and> pendingAcceptedUsers (snd (forkTo t rref forkDst s)) = pendingAcceptedUsers s
       \<and> rrefArgs (snd (forkTo t rref forkDst s)) = (rrefArgs s)(t := rrefArgs s t @ [rref])"
  using assms
  by (simp add: forkTo_def fork_def genGloballyUniqueId_def getWorkerId_def Let_def)

theorem forkTo_owner_destination_witness:
  "(0 :: worker_id_t) = owner ex_user
   \<and> forkTo 0 ex_user 0 (initContext 1) =
       (Inr \<lparr> fork_rrefId = ex_rrefId, fork_forkId = \<lparr> createdOn = 1, localId = 0 \<rparr>,
              fork_parent = 1 \<rparr>,
        (initContext 1)\<lparr> nextLocalId := 1, rrefArgs := (\<lambda>_. [])(0 := [ex_user]) \<rparr>)"
  using forkTo_owner_destination [where forkDst = 0 and rref = ex_user and t = 0
      and s = "initContext 1"]
  by (simp add: forkTo_def fork_def genGloballyUniqueId_def getWorkerId_def Let_def owner_def
      initContext_def)

end
